theory Spec2Isabelle
  imports Main "HOL-Library.Word"
begin

section \<open>The GPIO interrupt demultiplexer of espp (components/interrupt/include/interrupt.hpp)\<close>

text \<open>
  The class \<^verbatim>\<open>espp::Interrupt\<close> is embedded by explicit state passing. One record holds
  the member variables of the object, the static flag \<^verbatim>\<open>ISR_SERVICE_INSTALLED\<close>, the part of
  the platform the class reads (the FreeRTOS queue object, the pin levels, the result of the
  glitch filter allocation) and the list of everything the code does to the outside, in program
  order: calls of the GPIO driver, calls of the logger, calls of the task object and calls of
  user callbacks.

  The recursive mutex \<^verbatim>\<open>interrupt_mutex_\<close> is not modelled: every function below is one
  sequential run of the corresponding member function.
\<close>

subsection \<open>Data model\<close>

text \<open>\<^verbatim>\<open>struct Event { uint8_t gpio_num; bool active; }\<close>. The four structs of the source all
  name their pin field \<^verbatim>\<open>gpio_num\<close>; the records carry a prefix where a selector of that
  name exists already.\<close>

record Event =
  ev_gpio_num :: "8 word"
  active :: bool

datatype ActiveLevel = LOW | HIGH

text \<open>\<^verbatim>\<open>static_cast<int>(active_level)\<close> with \<^verbatim>\<open>LOW = 0, HIGH = 1\<close>.\<close>

fun ActiveLevel_to_int :: "ActiveLevel \<Rightarrow> int" where
  "ActiveLevel_to_int LOW = 0"
| "ActiveLevel_to_int HIGH = 1"

datatype Type = ANY_EDGE | RISING_EDGE | FALLING_EDGE | LOW_LEVEL | HIGH_LEVEL

text \<open>\<^verbatim>\<open>std::function<void(const Event &)>\<close>: an empty function object is \<open>None\<close>, a present
  one is named by a number. What the user's function does is outside the class; the model
  records each call with its argument.\<close>

type_synonym event_callback_fn = "nat option"

record InterruptConfig =
  gpio_num :: int
  callback :: event_callback_fn
  active_level :: ActiveLevel
  interrupt_type :: Type
  pullup_enabled :: bool
  pulldown_enabled :: bool
  enable_pin_glitch_filter :: bool

text \<open>\<^verbatim>\<open>struct Config\<close>; the task configuration and the log level are handed to the task and
  logger classes and read by no code of this class.\<close>

record Config =
  interrupts :: "InterruptConfig list"
  event_queue_size :: nat

text \<open>\<^verbatim>\<open>QueueHandle_t\<close>: a null pointer or a pointer to the queue of this object, the only
  queue the class ever creates.\<close>

datatype QueueHandle_t = NULL_QUEUE | QUEUE_PTR

record HandlerArgs =
  ha_gpio_num :: int
  event_queue :: QueueHandle_t

record EventData =
  ed_gpio_num :: int

subsection \<open>The platform, as far as the class uses it\<close>

text \<open>Declarations of \<^verbatim>\<open>driver/gpio.h\<close> used by \<^verbatim>\<open>configure_interrupt\<close>.\<close>

datatype gpio_mode_t = GPIO_MODE_DISABLE | GPIO_MODE_INPUT

datatype gpio_int_type_t =
  GPIO_INTR_DISABLE | GPIO_INTR_POSEDGE | GPIO_INTR_NEGEDGE | GPIO_INTR_ANYEDGE
  | GPIO_INTR_LOW_LEVEL | GPIO_INTR_HIGH_LEVEL

datatype gpio_pullup_t = GPIO_PULLUP_DISABLE | GPIO_PULLUP_ENABLE

datatype gpio_pulldown_t = GPIO_PULLDOWN_DISABLE | GPIO_PULLDOWN_ENABLE

record gpio_config_t =
  pin_bit_mask :: "64 word"
  mode :: gpio_mode_t
  pull_up_en :: gpio_pullup_t
  pull_down_en :: gpio_pulldown_t
  intr_type :: gpio_int_type_t

text \<open>The enumerators of \<^verbatim>\<open>Type\<close> are defined as the driver's constants, so the cast
  \<^verbatim>\<open>static_cast<gpio_int_type_t>(interrupt.interrupt_type)\<close> maps each to its namesake.\<close>

fun Type_to_gpio_int_type :: "Type \<Rightarrow> gpio_int_type_t" where
  "Type_to_gpio_int_type ANY_EDGE = GPIO_INTR_ANYEDGE"
| "Type_to_gpio_int_type RISING_EDGE = GPIO_INTR_POSEDGE"
| "Type_to_gpio_int_type FALLING_EDGE = GPIO_INTR_NEGEDGE"
| "Type_to_gpio_int_type LOW_LEVEL = GPIO_INTR_LOW_LEVEL"
| "Type_to_gpio_int_type HIGH_LEVEL = GPIO_INTR_HIGH_LEVEL"

text \<open>A glitch filter handle is opaque to the class; the model names it by the pin it was
  created for.\<close>

datatype gpio_glitch_filter_handle_t = FilterFor int

datatype Verbosity = DEBUG | INFO | WARN | ERROR

datatype log_arg =
  ArgInt int | ArgStr string | ArgConfig InterruptConfig | ArgErrName int

text \<open>Everything the class does to the outside. A logger call is recorded with its level, its
  format string and its arguments, whatever the configured verbosity prints of it.\<close>

datatype effect =
    Log Verbosity string "log_arg list"
  | GpioInstallIsrService
  | GpioConfig gpio_config_t
  | GpioIsrHandlerAdd int HandlerArgs
  | GpioIsrHandlerRemove int
  | GpioNewPinGlitchFilter int int
  | GpioGlitchFilterEnable gpio_glitch_filter_handle_t
  | TaskStart
  | Callback nat Event
  | UndefinedShift int

text \<open>Modelled from the spec: the FreeRTOS queue behind \<^verbatim>\<open>xQueueCreate\<close>,
  \<^verbatim>\<open>xQueueSend\<close>, \<^verbatim>\<open>xQueueSendFromISR\<close> and \<^verbatim>\<open>xQueueReceive\<close> is not part
  of the repository. The spec calls it a bounded cross-context queue of fixed capacity set at
  construction, delivering in FIFO order, whose interrupt-safe enqueue drops the event when the
  queue is full.\<close>

record xqueue =
  uxLength :: nat
  q_items :: "EventData list"

text \<open>Modelled from the spec: the class \<^verbatim>\<open>espp::Task\<close> (task.hpp), whose source is
  missing. The Dispatch Task is Running (initial) or Stopped (terminal).\<close>

datatype task_state = Running | Stopped

text \<open>The state. The member variables \<^verbatim>\<open>queue_\<close>, \<^verbatim>\<open>interrupts_\<close>,
  \<^verbatim>\<open>handler_args_\<close>, \<^verbatim>\<open>glitch_filter_handles_\<close> and \<^verbatim>\<open>task_\<close> carry the suffix
  \<open>m\<close>, since a name cannot end in an underscore here. \<open>rtos_queue\<close> is the queue object
  \<^verbatim>\<open>queue_\<close> points to while it is alive, \<open>gpio_level\<close> what \<^verbatim>\<open>gpio_get_level\<close>
  reads, \<open>glitch_filter_err\<close> the error code \<^verbatim>\<open>gpio_new_pin_glitch_filter\<close> returns for a
  pin (0 is \<^verbatim>\<open>ESP_OK\<close>), \<open>trace\<close> the effects so far.\<close>

record sys =
  queue_m :: QueueHandle_t
  interrupts_m :: "InterruptConfig list"
  handler_args_m :: "HandlerArgs list"
  glitch_filter_handles_m :: "gpio_glitch_filter_handle_t list"
  task_m :: "task_state option"
  ISR_SERVICE_INSTALLED :: bool
  rtos_queue :: "xqueue option"
  gpio_level :: "int \<Rightarrow> int"
  glitch_filter_err :: "int \<Rightarrow> int"
  trace :: "effect list"

datatype fault = InvalidQueueHandle

definition emit :: "effect \<Rightarrow> sys \<Rightarrow> sys" where
  "emit e s = s\<lparr>trace := trace s @ [e]\<rparr>"

definition logger :: "Verbosity \<Rightarrow> string \<Rightarrow> log_arg list \<Rightarrow> sys \<Rightarrow> sys" where
  "logger v fmt args s = emit (Log v fmt args) s"

subsection \<open>Queue primitives\<close>

text \<open>Modelled from the spec: \<^verbatim>\<open>xQueueCreate\<close> is not part of the repository. It
  creates an empty queue of the given capacity, or returns the null pointer when the heap
  cannot hold the queue, which is an input of the model. In all the primitives below, a call
  on a handle that does not point to a queue is a fault of the platform (FreeRTOS asserts the
  handle).\<close>

definition xQueueCreate :: "bool \<Rightarrow> nat \<Rightarrow> xqueue option" where
  "xQueueCreate heap_ok n =
     (if heap_ok then Some \<lparr>uxLength = n, q_items = []\<rparr> else None)"

text \<open>Modelled from the spec: \<^verbatim>\<open>xQueueSendFromISR\<close> is not part of the repository. The
  call \<^verbatim>\<open>xQueueSendFromISR(q, &item, nullptr)\<close> never waits: it appends when there is room
  and returns \<^verbatim>\<open>errQUEUE_FULL\<close> (\<open>False\<close>) otherwise, leaving the queue as it was (the
  spec: a full queue drops the event, without blocking, retry or backpressure).\<close>

definition xQueueSendFromISR :: "QueueHandle_t \<Rightarrow> EventData \<Rightarrow> sys \<Rightarrow> fault + bool \<times> sys" where
  "xQueueSendFromISR h item s =
     (case (h, rtos_queue s) of
        (QUEUE_PTR, Some q) \<Rightarrow>
          if length (q_items q) < uxLength q
          then Inr (True, s\<lparr>rtos_queue := Some (q\<lparr>q_items := q_items q @ [item]\<rparr>)\<rparr>)
          else Inr (False, s)
      | _ \<Rightarrow> Inl InvalidQueueHandle)"

text \<open>Modelled from the spec: \<^verbatim>\<open>xQueueSend\<close> is not part of the repository. The call
  \<^verbatim>\<open>xQueueSend(q, &item, 0)\<close> has zero ticks to wait, so a full queue refuses at once.\<close>

definition xQueueSend :: "QueueHandle_t \<Rightarrow> EventData \<Rightarrow> sys \<Rightarrow> fault + bool \<times> sys" where
  "xQueueSend h item s =
     (case (h, rtos_queue s) of
        (QUEUE_PTR, Some q) \<Rightarrow>
          if length (q_items q) < uxLength q
          then Inr (True, s\<lparr>rtos_queue := Some (q\<lparr>q_items := q_items q @ [item]\<rparr>)\<rparr>)
          else Inr (False, s)
      | _ \<Rightarrow> Inl InvalidQueueHandle)"

text \<open>Modelled from the spec: \<^verbatim>\<open>xQueueReceive\<close> is not part of the repository. The call
  \<^verbatim>\<open>xQueueReceive(q, &item, portMAX_DELAY)\<close> takes the oldest item. On an empty queue the
  call waits; the model returns \<open>None\<close> there, which the caller treats as the source treats a
  receive that returned false.\<close>

definition xQueueReceive :: "QueueHandle_t \<Rightarrow> sys \<Rightarrow> fault + EventData option \<times> sys" where
  "xQueueReceive h s =
     (case (h, rtos_queue s) of
        (QUEUE_PTR, Some q) \<Rightarrow>
          (case q_items q of
             [] \<Rightarrow> Inr (None, s)
           | item # rest \<Rightarrow> Inr (Some item, s\<lparr>rtos_queue := Some (q\<lparr>q_items := rest\<rparr>)\<rparr>))
      | _ \<Rightarrow> Inl InvalidQueueHandle)"

subsection \<open>ISR Bridge\<close>

text \<open>\<^verbatim>\<open>static void isr_handler(void *arg)\<close>: the result of the send is not looked at.\<close>

definition isr_handler :: "HandlerArgs \<Rightarrow> sys \<Rightarrow> fault + sys" where
  "isr_handler args s =
     (let event_data = \<lparr>ed_gpio_num = ha_gpio_num args\<rparr>
      in case xQueueSendFromISR (event_queue args) event_data s of
           Inl f \<Rightarrow> Inl f
         | Inr (sent, s') \<Rightarrow> Inr s')"

subsection \<open>Dispatch Task\<close>

text \<open>\<^verbatim>\<open>gpio_get_level\<close> reads the platform's pin level, 0 or 1.\<close>

definition is_active_level :: "int \<Rightarrow> ActiveLevel \<Rightarrow> sys \<Rightarrow> bool" where
  "is_active_level g al s = (gpio_level s g = ActiveLevel_to_int al)"

text \<open>\<^verbatim>\<open>bool task_callback(std::mutex &, std::condition_variable &)\<close>: one round of the
  task's loop. The result \<open>True\<close> asks the task to stop. \<^verbatim>\<open>std::find_if\<close> is \<^const>\<open>find\<close>;
  \<^verbatim>\<open>static_cast<uint8_t>\<close> of an int is \<^const>\<open>word_of_int\<close> at 8 bits.\<close>

definition task_callback :: "sys \<Rightarrow> fault + bool \<times> sys" where
  "task_callback s =
     (case xQueueReceive (queue_m s) s of
        Inl f \<Rightarrow> Inl f
      | Inr (None, s0) \<Rightarrow> Inr (False, s0)
      | Inr (Some event_data, s0) \<Rightarrow>
          if ed_gpio_num event_data = - 1 then Inr (True, s0)
          else
            let g = ed_gpio_num event_data;
                s1 = logger INFO ''Received interrupt for GPIO {}'' [ArgInt g] s0
            in case find (\<lambda>interrupt. gpio_num interrupt = g) (interrupts_m s1) of
                 None \<Rightarrow>
                   Inr (False, logger ERROR ''No interrupt found for GPIO {}'' [ArgInt g] s1)
               | Some interrupt \<Rightarrow>
                   (case callback interrupt of
                      None \<Rightarrow>
                        Inr (False,
                             logger ERROR ''No callback registered for GPIO {}'' [ArgInt g] s1)
                    | Some cb \<Rightarrow>
                        let s2 = logger DEBUG ''Calling interrupt callback for GPIO {}''
                                   [ArgInt g] s1;
                            act = is_active_level g (active_level interrupt) s2;
                            s3 = logger DEBUG ''GPIO {} is {}''
                                   [ArgInt g, ArgStr (if act then ''active'' else ''inactive'')] s2;
                            event = \<lparr>ev_gpio_num = word_of_int g, active = act\<rparr>
                        in Inr (False, emit (Callback cb event) s3)))"

text \<open>Modelled from the spec: the loop of \<^verbatim>\<open>espp::Task\<close>, whose source is missing. While
  Running, the task calls \<open>task_callback\<close> again and again and becomes Stopped when a call
  returns true; a Stopped task takes no further step.\<close>

definition task_step :: "sys \<Rightarrow> (fault + sys) option" where
  "task_step s =
     (case task_m s of
        Some Running \<Rightarrow>
          Some (case task_callback s of
                  Inl f \<Rightarrow> Inl f
                | Inr (stop, s') \<Rightarrow> Inr (if stop then s'\<lparr>task_m := Some Stopped\<rparr> else s'))
      | _ \<Rightarrow> None)"

subsection \<open>Configure\<close>

text \<open>\<^verbatim>\<open>void configure_interrupt(const InterruptConfig &)\<close>. The first argument is the
  compile-time constant \<^verbatim>\<open>CONFIG_SOC_GPIO_SUPPORT_PIN_GLITCH_FILTER\<close>. The shift
  \<^verbatim>\<open>1ULL << interrupt.gpio_num\<close> is undefined in C++ for a negative count and for a count
  of 64 or more; the model records that and stops there.\<close>

definition configure_interrupt :: "bool \<Rightarrow> InterruptConfig \<Rightarrow> sys \<Rightarrow> sys" where
  "configure_interrupt glitch_supported interrupt s =
     (let g = gpio_num interrupt;
          s1 = logger INFO ''Configuring interrupt for GPIO {}'' [ArgInt g] s;
          s2 = logger DEBUG ''Config: {}'' [ArgConfig interrupt] s1
      in if callback interrupt = None
         then logger ERROR ''No callback provided for GPIO {}, not registering interrupt''
                [ArgInt g] s2
         else if g < 0 \<or> 64 \<le> g then emit (UndefinedShift g) s2
         else
           let io_conf = \<lparr>pin_bit_mask = push_bit (nat g) 1,
                          mode = GPIO_MODE_INPUT,
                          pull_up_en = (if pullup_enabled interrupt
                                        then GPIO_PULLUP_ENABLE else GPIO_PULLUP_DISABLE),
                          pull_down_en = (if pulldown_enabled interrupt
                                          then GPIO_PULLDOWN_ENABLE else GPIO_PULLDOWN_DISABLE),
                          intr_type = Type_to_gpio_int_type (interrupt_type interrupt)\<rparr>;
               s3 = emit (GpioConfig io_conf) s2;
               handler_arg = \<lparr>ha_gpio_num = g, event_queue = queue_m s3\<rparr>;
               s4 = s3\<lparr>handler_args_m := handler_args_m s3 @ [handler_arg]\<rparr>;
               s5 = emit (GpioIsrHandlerAdd g handler_arg) s4
           in if enable_pin_glitch_filter interrupt
              then
                if glitch_supported
                then
                  let s6 = logger INFO ''Enabling glitch filter for GPIO {}'' [ArgInt g] s5;
                      err = glitch_filter_err s6 g;
                      s7 = emit (GpioNewPinGlitchFilter g err) s6
                  in if err \<noteq> 0
                     then logger ERROR ''Failed to enable glitch filter for GPIO {}: {}''
                            [ArgInt g, ArgErrName err] s7
                     else
                       let handle = FilterFor g;
                           s8 = s7\<lparr>glitch_filter_handles_m :=
                                     glitch_filter_handles_m s7 @ [handle]\<rparr>
                       in emit (GpioGlitchFilterEnable handle) s8
                else logger WARN ''Glitch filter not supported on this chip'' [] s5
              else s5)"

subsection \<open>Interrupt Registry\<close>

text \<open>\<^verbatim>\<open>void add_interrupt(const InterruptConfig &)\<close>.\<close>

definition add_interrupt :: "bool \<Rightarrow> InterruptConfig \<Rightarrow> sys \<Rightarrow> sys" where
  "add_interrupt glitch_supported interrupt s =
     (let s1 = logger INFO ''Adding interrupt for GPIO {}'' [ArgInt (gpio_num interrupt)] s;
          s2 = s1\<lparr>interrupts_m := interrupts_m s1 @ [interrupt]\<rparr>
      in configure_interrupt glitch_supported interrupt s2)"

text \<open>\<^verbatim>\<open>explicit Interrupt(const Config &)\<close>. \<open>heap_ok\<close> says whether \<^verbatim>\<open>xQueueCreate\<close>
  finds memory; \<open>w\<close> is the world before the object exists (the static flag, the pins, what
  happened so far). The members are initialised first, then the body runs.\<close>

definition Interrupt :: "bool \<Rightarrow> bool \<Rightarrow> Config \<Rightarrow> sys \<Rightarrow> sys" where
  "Interrupt glitch_supported heap_ok config w =
     (let q = xQueueCreate heap_ok (event_queue_size config);
          s0 = w\<lparr>queue_m := (case q of None \<Rightarrow> NULL_QUEUE | Some _ \<Rightarrow> QUEUE_PTR),
                 interrupts_m := interrupts config,
                 handler_args_m := [],
                 glitch_filter_handles_m := [],
                 task_m := None,
                 rtos_queue := q\<rparr>
      in if queue_m s0 = NULL_QUEUE
         then logger ERROR ''Failed to create event queue'' [] s0
         else
           let s1 = (if \<not> ISR_SERVICE_INSTALLED s0
                     then (emit GpioInstallIsrService s0)\<lparr>ISR_SERVICE_INSTALLED := True\<rparr>
                     else s0);
               s2 = fold (configure_interrupt glitch_supported) (interrupts_m s1) s1;
               s3 = s2\<lparr>task_m := Some Running\<rparr>
           in emit TaskStart s3)"

text \<open>\<^verbatim>\<open>~Interrupt()\<close>, up to the point where it waits for the task: the loop that
  removes the interrupt handlers and, when there is a queue, the post of the sentinel. What
  follows in the source (\<^verbatim>\<open>task_->stop()\<close>, the release of the queue, of the glitch
  filters and of the handler contexts) depends on what the task does meanwhile and is not part
  of this sequential model.\<close>

definition remove_isr_handlers :: "sys \<Rightarrow> sys" where
  "remove_isr_handlers s =
     fold (\<lambda>args. emit (GpioIsrHandlerRemove (ha_gpio_num args))) (handler_args_m s) s"

definition destroy_Interrupt_begin :: "sys \<Rightarrow> fault + sys" where
  "destroy_Interrupt_begin s =
     (let s1 = remove_isr_handlers s
      in if queue_m s1 \<noteq> NULL_QUEUE
         then
           case xQueueSend (queue_m s1) \<lparr>ed_gpio_num = - 1\<rparr> s1 of
             Inl f \<Rightarrow> Inl f
           | Inr (sent, s2) \<Rightarrow> Inr s2
         else Inr s1)"

subsection \<open>Reading the trace\<close>

text \<open>The user callbacks called in a stretch of the trace, with their arguments, in order.\<close>

fun callbacks_of :: "effect list \<Rightarrow> (nat \<times> Event) list" where
  "callbacks_of [] = []"
| "callbacks_of (Callback cb ev # es) = (cb, ev) # callbacks_of es"
| "callbacks_of (e # es) = callbacks_of es"

text \<open>The arguments of the \<^verbatim>\<open>gpio_config\<close> calls in a stretch of the trace, in order.\<close>

fun gpio_configs :: "effect list \<Rightarrow> gpio_config_t list" where
  "gpio_configs [] = []"
| "gpio_configs (GpioConfig c # es) = c # gpio_configs es"
| "gpio_configs (e # es) = gpio_configs es"

text \<open>How the driver was last told to configure a pin: the most recent \<^verbatim>\<open>gpio_config\<close>
  call whose bit mask selects the pin, if there is one.\<close>

definition last_gpio_config :: "nat \<Rightarrow> effect list \<Rightarrow> gpio_config_t option" where
  "last_gpio_config pin tr =
     (let cs = filter (\<lambda>c. bit (pin_bit_mask c) pin) (gpio_configs tr)
      in if cs = [] then None else Some (last cs))"

subsection \<open>Concrete inputs\<close>

definition pins_high :: "int \<Rightarrow> int" where
  "pins_high g = 1"

definition filter_ok :: "int \<Rightarrow> int" where
  "filter_ok g = 0"

text \<open>The world before any object exists, and the world in which some earlier object has
  installed the ISR service already.\<close>

definition world0 :: sys where
  "world0 = \<lparr>queue_m = NULL_QUEUE, interrupts_m = [], handler_args_m = [],
     glitch_filter_handles_m = [], task_m = None, ISR_SERVICE_INSTALLED = False,
     rtos_queue = None, gpio_level = pins_high, glitch_filter_err = filter_ok, trace = []\<rparr>"

definition world_isr :: sys where
  "world_isr = world0\<lparr>ISR_SERVICE_INSTALLED := True\<rparr>"

definition pin3_no_callback :: InterruptConfig where
  "pin3_no_callback = \<lparr>gpio_num = 3, callback = None, active_level = LOW,
     interrupt_type = FALLING_EDGE, pullup_enabled = False, pulldown_enabled = True,
     enable_pin_glitch_filter = False\<rparr>"

definition pin3_with_callback :: InterruptConfig where
  "pin3_with_callback = \<lparr>gpio_num = 3, callback = Some 7, active_level = HIGH,
     interrupt_type = RISING_EDGE, pullup_enabled = True, pulldown_enabled = False,
     enable_pin_glitch_filter = False\<rparr>"

definition pin5_filtered :: InterruptConfig where
  "pin5_filtered = \<lparr>gpio_num = 5, callback = Some 9, active_level = LOW,
     interrupt_type = ANY_EDGE, pullup_enabled = True, pulldown_enabled = False,
     enable_pin_glitch_filter = True\<rparr>"

definition pin300_with_callback :: InterruptConfig where
  "pin300_with_callback = \<lparr>gpio_num = 300, callback = Some 7, active_level = HIGH,
     interrupt_type = ANY_EDGE, pullup_enabled = False, pulldown_enabled = False,
     enable_pin_glitch_filter = False\<rparr>"

definition empty_config :: Config where
  "empty_config = \<lparr>interrupts = [], event_queue_size = 10\<rparr>"

text \<open>A registry in mid-life: constructed, task running, with a given table, a queue of a
  given capacity and the pin ids waiting in it.\<close>

definition running_sys :: "InterruptConfig list \<Rightarrow> nat \<Rightarrow> int list \<Rightarrow> sys" where
  "running_sys tbl n pins =
     \<lparr>queue_m = QUEUE_PTR, interrupts_m = tbl, handler_args_m = [],
      glitch_filter_handles_m = [], task_m = Some Running, ISR_SERVICE_INSTALLED = True,
      rtos_queue = Some \<lparr>uxLength = n, q_items = map (\<lambda>g. \<lparr>ed_gpio_num = g\<rparr>) pins\<rparr>,
      gpio_level = pins_high, glitch_filter_err = filter_ok, trace = []\<rparr>"

text \<open>The registry constructed from the two specs for pin 3, the one without a callback
  first, after the interrupt handler of pin 3 has run once.\<close>

definition dup_config :: Config where
  "dup_config = \<lparr>interrupts = [pin3_no_callback, pin3_with_callback], event_queue_size = 10\<rparr>"

definition dup_sys :: sys where
  "dup_sys =
     (case isr_handler \<lparr>ha_gpio_num = 3, event_queue = QUEUE_PTR\<rparr>
             (Interrupt False True dup_config world0) of
        Inr s \<Rightarrow> s
      | Inl f \<Rightarrow> world0)"

text \<open>A second spec for pin 3 that differs from \<open>pin3_with_callback\<close> in every hardware
  setting, and the registry whose queue could not be allocated, in a world where the ISR
  service is installed.\<close>

definition pin3_other :: InterruptConfig where
  "pin3_other = \<lparr>gpio_num = 3, callback = Some 8, active_level = LOW,
     interrupt_type = FALLING_EDGE, pullup_enabled = False, pulldown_enabled = True,
     enable_pin_glitch_filter = False\<rparr>"

definition inert_sys :: sys where
  "inert_sys = Interrupt False False empty_config world_isr"

section \<open>Properties\<close>

subsection \<open>Auxiliary facts\<close>

lemma find_first:
  assumes "n < length xs" and "P (xs ! n)" and "\<forall>m<n. \<not> P (xs ! m)"
  shows "find P xs = Some (xs ! n)"
  using assms by (auto simp: find_Some_iff)

lemma find_none:
  assumes "\<forall>x\<in>set xs. \<not> P x"
  shows "find P xs = None"
  using assms by (simp add: find_None_iff)

lemma xQueueReceive_head:
  assumes "rtos_queue s = Some q" and "q_items q = item # rest"
  shows "xQueueReceive QUEUE_PTR s =
    Inr (Some item, s\<lparr>rtos_queue := Some (q\<lparr>q_items := rest\<rparr>)\<rparr>)"
  using assms by (simp add: xQueueReceive_def)

lemma callbacks_of_append: "callbacks_of (xs @ ys) = callbacks_of xs @ callbacks_of ys"
  by (induction xs rule: callbacks_of.induct) simp_all

lemma gpio_configs_append: "gpio_configs (xs @ ys) = gpio_configs xs @ gpio_configs ys"
  by (induction xs rule: gpio_configs.induct) simp_all

text \<open>The three ways a round of the task ends after it has received a pin id other than
  the sentinel, by what \<^const>\<open>find\<close> returns.\<close>

lemma task_callback_found_callback:
  assumes "queue_m s = QUEUE_PTR" and "rtos_queue s = Some q"
    and "q_items q = \<lparr>ed_gpio_num = e\<rparr> # rest" and "e \<noteq> - 1"
    and "find (\<lambda>i. gpio_num i = e) (interrupts_m s) = Some entry"
    and "callback entry = Some cb"
  shows "task_callback s =
    Inr (False, s\<lparr>rtos_queue := Some (q\<lparr>q_items := rest\<rparr>),
                  trace := trace s @
                    [Log INFO ''Received interrupt for GPIO {}'' [ArgInt e],
                     Log DEBUG ''Calling interrupt callback for GPIO {}'' [ArgInt e],
                     Log DEBUG ''GPIO {} is {}''
                       [ArgInt e,
                        ArgStr (if gpio_level s e = ActiveLevel_to_int (active_level entry)
                                then ''active'' else ''inactive'')],
                     Callback cb
                       \<lparr>ev_gpio_num = word_of_int e,
                        active = (gpio_level s e = ActiveLevel_to_int (active_level entry))\<rparr>]\<rparr>)"
  using assms
  by (simp add: task_callback_def xQueueReceive_head logger_def emit_def is_active_level_def
      Let_def)

lemma task_callback_found_no_callback:
  assumes "queue_m s = QUEUE_PTR" and "rtos_queue s = Some q"
    and "q_items q = \<lparr>ed_gpio_num = e\<rparr> # rest" and "e \<noteq> - 1"
    and "find (\<lambda>i. gpio_num i = e) (interrupts_m s) = Some entry"
    and "callback entry = None"
  shows "task_callback s =
    Inr (False, s\<lparr>rtos_queue := Some (q\<lparr>q_items := rest\<rparr>),
                  trace := trace s @
                    [Log INFO ''Received interrupt for GPIO {}'' [ArgInt e],
                     Log ERROR ''No callback registered for GPIO {}'' [ArgInt e]]\<rparr>)"
  using assms
  by (simp add: task_callback_def xQueueReceive_head logger_def emit_def Let_def)

lemma task_callback_not_found:
  assumes "queue_m s = QUEUE_PTR" and "rtos_queue s = Some q"
    and "q_items q = \<lparr>ed_gpio_num = e\<rparr> # rest" and "e \<noteq> - 1"
    and "find (\<lambda>i. gpio_num i = e) (interrupts_m s) = None"
  shows "task_callback s =
    Inr (False, s\<lparr>rtos_queue := Some (q\<lparr>q_items := rest\<rparr>),
                  trace := trace s @
                    [Log INFO ''Received interrupt for GPIO {}'' [ArgInt e],
                     Log ERROR ''No interrupt found for GPIO {}'' [ArgInt e]]\<rparr>)"
  using assms
  by (simp add: task_callback_def xQueueReceive_head logger_def emit_def Let_def)

lemma task_callback_sentinel:
  assumes "queue_m s = QUEUE_PTR" and "rtos_queue s = Some q"
    and "q_items q = \<lparr>ed_gpio_num = - 1\<rparr> # rest"
  shows "task_callback s = Inr (True, s\<lparr>rtos_queue := Some (q\<lparr>q_items := rest\<rparr>)\<rparr>)"
  using assms by (simp add: task_callback_def xQueueReceive_head)

text \<open>The registry of \<open>dup_sys\<close>, written out.\<close>

lemma dup_sys_fields:
  "queue_m dup_sys = QUEUE_PTR"
  "rtos_queue dup_sys = Some \<lparr>uxLength = 10, q_items = [\<lparr>ed_gpio_num = 3\<rparr>]\<rparr>"
  "interrupts_m dup_sys = [pin3_no_callback, pin3_with_callback]"
  "handler_args_m dup_sys = [\<lparr>ha_gpio_num = 3, event_queue = QUEUE_PTR\<rparr>]"
  "task_m dup_sys = Some Running"
  "gpio_level dup_sys = pins_high"
  by (simp_all add: dup_sys_def dup_config_def world0_def Interrupt_def xQueueCreate_def
      isr_handler_def xQueueSendFromISR_def configure_interrupt_def pin3_no_callback_def
      pin3_with_callback_def logger_def emit_def Let_def)

subsection \<open>Dispatch of a received event\<close>

text \<open>
  C1 (as amended). For every dequeued non-sentinel event, when the first table entry in
  registration order whose pin id matches has a present callback, the Dispatch Task reads the
  pin's current level, computes active as (level == that entry's active level) and invokes that
  entry's callback exactly once, with the Event holding the pin id converted to 8 bits and
  active. The round changes nothing else but the queue, which loses the event, and the log.
\<close>

theorem task_callback_invokes_first_match:
  assumes "queue_m s = QUEUE_PTR" and "rtos_queue s = Some q"
    and "q_items q = \<lparr>ed_gpio_num = e\<rparr> # rest" and "e \<noteq> - 1"
    and "n < length (interrupts_m s)"
    and "gpio_num (interrupts_m s ! n) = e"
    and "\<forall>m<n. gpio_num (interrupts_m s ! m) \<noteq> e"
    and "callback (interrupts_m s ! n) = Some cb"
  shows "task_callback s =
    Inr (False, s\<lparr>rtos_queue := Some (q\<lparr>q_items := rest\<rparr>),
                  trace := trace s @
                    [Log INFO ''Received interrupt for GPIO {}'' [ArgInt e],
                     Log DEBUG ''Calling interrupt callback for GPIO {}'' [ArgInt e],
                     Log DEBUG ''GPIO {} is {}''
                       [ArgInt e,
                        ArgStr (if gpio_level s e =
                                     ActiveLevel_to_int (active_level (interrupts_m s ! n))
                                then ''active'' else ''inactive'')],
                     Callback cb
                       \<lparr>ev_gpio_num = word_of_int e,
                        active = (gpio_level s e =
                                    ActiveLevel_to_int (active_level (interrupts_m s ! n)))\<rparr>]\<rparr>)
    \<and> (\<forall>s'. task_callback s = Inr (False, s') \<longrightarrow>
          callbacks_of (drop (length (trace s)) (trace s')) =
            [(cb, \<lparr>ev_gpio_num = word_of_int e,
                   active = (gpio_level s e =
                               ActiveLevel_to_int (active_level (interrupts_m s ! n)))\<rparr>)])"
proof -
  have "find (\<lambda>i. gpio_num i = e) (interrupts_m s) = Some (interrupts_m s ! n)"
    using assms(5-7) by (intro find_first) simp_all
  from task_callback_found_callback [OF assms(1-4) this assms(8)] show ?thesis
    by simp
qed

theorem task_callback_invokes_first_match_witness:
  "task_callback (running_sys [pin5_filtered, pin3_with_callback, pin3_no_callback] 10 [3, 5]) =
     Inr (False,
          (running_sys [pin5_filtered, pin3_with_callback, pin3_no_callback] 10 [3, 5])
            \<lparr>rtos_queue := Some \<lparr>uxLength = 10, q_items = [\<lparr>ed_gpio_num = 5\<rparr>]\<rparr>,
             trace :=
               [Log INFO ''Received interrupt for GPIO {}'' [ArgInt 3],
                Log DEBUG ''Calling interrupt callback for GPIO {}'' [ArgInt 3],
                Log DEBUG ''GPIO {} is {}'' [ArgInt 3, ArgStr ''active''],
                Callback 7 \<lparr>ev_gpio_num = 3, active = True\<rparr>]\<rparr>)"
  using task_callback_invokes_first_match
    [where s = "running_sys [pin5_filtered, pin3_with_callback, pin3_no_callback] 10 [3, 5]"
       and q = "\<lparr>uxLength = 10, q_items = [\<lparr>ed_gpio_num = 3\<rparr>, \<lparr>ed_gpio_num = 5\<rparr>]\<rparr>"
       and e = 3 and rest = "[\<lparr>ed_gpio_num = 5\<rparr>]" and n = 1 and cb = 7, THEN conjunct1]
  by (simp add: running_sys_def pin5_filtered_def pin3_with_callback_def pins_high_def)

text \<open>
  C1 as stated fails: in \<open>dup_sys\<close> the dequeued pin id 3 matches the table entry
  \<open>pin3_with_callback\<close>, whose callback is present, but the task takes the earlier entry for
  pin 3, which has none, and invokes no callback.
\<close>

theorem task_callback_later_entry_counterexample:
  "rtos_queue dup_sys = Some \<lparr>uxLength = 10, q_items = [\<lparr>ed_gpio_num = 3\<rparr>]\<rparr>
   \<and> interrupts_m dup_sys = [pin3_no_callback, pin3_with_callback]
   \<and> gpio_num pin3_with_callback = 3
   \<and> callback pin3_with_callback = Some 7
   \<and> task_callback dup_sys =
       Inr (False, dup_sys\<lparr>rtos_queue := Some \<lparr>uxLength = 10, q_items = []\<rparr>,
                            trace := trace dup_sys @
                              [Log INFO ''Received interrupt for GPIO {}'' [ArgInt 3],
                               Log ERROR ''No callback registered for GPIO {}'' [ArgInt 3]]\<rparr>)
   \<and> callbacks_of [Log INFO ''Received interrupt for GPIO {}'' [ArgInt 3],
                    Log ERROR ''No callback registered for GPIO {}'' [ArgInt 3]] = []"
proof -
  have "find (\<lambda>i. gpio_num i = 3) (interrupts_m dup_sys) = Some pin3_no_callback"
    by (simp add: dup_sys_fields pin3_no_callback_def)
  moreover have "callback pin3_no_callback = None"
    by (simp add: pin3_no_callback_def)
  ultimately have "task_callback dup_sys =
       Inr (False, dup_sys\<lparr>rtos_queue := Some (\<lparr>uxLength = 10, q_items = [\<lparr>ed_gpio_num = 3\<rparr>]\<rparr>
                                                  \<lparr>q_items := []\<rparr>),
                            trace := trace dup_sys @
                              [Log INFO ''Received interrupt for GPIO {}'' [ArgInt 3],
                               Log ERROR ''No callback registered for GPIO {}'' [ArgInt 3]]\<rparr>)"
    by (intro task_callback_found_no_callback) (simp_all add: dup_sys_fields)
  then show ?thesis
    by (simp add: dup_sys_fields pin3_with_callback_def)
qed

text \<open>
  C6. On dequeuing a non-sentinel event the task takes the first table entry, in registration
  order, whose pin id matches. If no entry matches, it logs an error and goes on: the round
  returns false, and apart from the log and the dequeued event the state is as before. If the
  first matching entry has no callback, it logs an error and goes on in the same way, invoking
  nothing. If the first matching entry has a callback, that callback and no other is invoked.
\<close>

theorem task_callback_unmatched_or_no_callback:
  assumes "queue_m s = QUEUE_PTR" and "rtos_queue s = Some q"
    and "q_items q = \<lparr>ed_gpio_num = e\<rparr> # rest" and "e \<noteq> - 1"
  shows
    "((\<forall>i\<in>set (interrupts_m s). gpio_num i \<noteq> e) \<longrightarrow>
        task_callback s =
          Inr (False, s\<lparr>rtos_queue := Some (q\<lparr>q_items := rest\<rparr>),
                        trace := trace s @
                          [Log INFO ''Received interrupt for GPIO {}'' [ArgInt e],
                           Log ERROR ''No interrupt found for GPIO {}'' [ArgInt e]]\<rparr>))
     \<and> (n < length (interrupts_m s) \<and> gpio_num (interrupts_m s ! n) = e
          \<and> (\<forall>m<n. gpio_num (interrupts_m s ! m) \<noteq> e)
          \<and> callback (interrupts_m s ! n) = None \<longrightarrow>
        task_callback s =
          Inr (False, s\<lparr>rtos_queue := Some (q\<lparr>q_items := rest\<rparr>),
                        trace := trace s @
                          [Log INFO ''Received interrupt for GPIO {}'' [ArgInt e],
                           Log ERROR ''No callback registered for GPIO {}'' [ArgInt e]]\<rparr>))
     \<and> (k < length (interrupts_m s) \<and> gpio_num (interrupts_m s ! k) = e
          \<and> (\<forall>m<k. gpio_num (interrupts_m s ! m) \<noteq> e)
          \<and> callback (interrupts_m s ! k) = Some cb \<longrightarrow>
        (\<exists>s'. task_callback s = Inr (False, s')
             \<and> callbacks_of (drop (length (trace s)) (trace s')) =
                 [(cb, \<lparr>ev_gpio_num = word_of_int e,
                        active = (gpio_level s e =
                                    ActiveLevel_to_int (active_level (interrupts_m s ! k)))\<rparr>)]))"
proof (intro conjI impI)
  assume "\<forall>i\<in>set (interrupts_m s). gpio_num i \<noteq> e"
  then have "find (\<lambda>i. gpio_num i = e) (interrupts_m s) = None"
    by (intro find_none) simp
  from task_callback_not_found [OF assms this]
  show "task_callback s =
          Inr (False, s\<lparr>rtos_queue := Some (q\<lparr>q_items := rest\<rparr>),
                        trace := trace s @
                          [Log INFO ''Received interrupt for GPIO {}'' [ArgInt e],
                           Log ERROR ''No interrupt found for GPIO {}'' [ArgInt e]]\<rparr>)" .
next
  assume a: "n < length (interrupts_m s) \<and> gpio_num (interrupts_m s ! n) = e
          \<and> (\<forall>m<n. gpio_num (interrupts_m s ! m) \<noteq> e)
          \<and> callback (interrupts_m s ! n) = None"
  then have "find (\<lambda>i. gpio_num i = e) (interrupts_m s) = Some (interrupts_m s ! n)"
    by (intro find_first) simp_all
  from task_callback_found_no_callback [OF assms this] a
  show "task_callback s =
          Inr (False, s\<lparr>rtos_queue := Some (q\<lparr>q_items := rest\<rparr>),
                        trace := trace s @
                          [Log INFO ''Received interrupt for GPIO {}'' [ArgInt e],
                           Log ERROR ''No callback registered for GPIO {}'' [ArgInt e]]\<rparr>)"
    by simp
next
  assume a: "k < length (interrupts_m s) \<and> gpio_num (interrupts_m s ! k) = e
          \<and> (\<forall>m<k. gpio_num (interrupts_m s ! m) \<noteq> e)
          \<and> callback (interrupts_m s ! k) = Some cb"
  then have "find (\<lambda>i. gpio_num i = e) (interrupts_m s) = Some (interrupts_m s ! k)"
    by (intro find_first) simp_all
  from task_callback_found_callback [OF assms this] a
  show "\<exists>s'. task_callback s = Inr (False, s')
             \<and> callbacks_of (drop (length (trace s)) (trace s')) =
                 [(cb, \<lparr>ev_gpio_num = word_of_int e,
                        active = (gpio_level s e =
                                    ActiveLevel_to_int (active_level (interrupts_m s ! k)))\<rparr>)]"
    by simp
qed

theorem task_callback_unmatched_or_no_callback_witness:
  "task_callback (running_sys [pin3_with_callback] 10 [5]) =
     Inr (False, (running_sys [pin3_with_callback] 10 [5])
                   \<lparr>rtos_queue := Some \<lparr>uxLength = 10, q_items = []\<rparr>,
                    trace := [Log INFO ''Received interrupt for GPIO {}'' [ArgInt 5],
                              Log ERROR ''No interrupt found for GPIO {}'' [ArgInt 5]]\<rparr>)
   \<and> task_callback (running_sys [pin3_no_callback, pin3_with_callback] 10 [3]) =
     Inr (False, (running_sys [pin3_no_callback, pin3_with_callback] 10 [3])
                   \<lparr>rtos_queue := Some \<lparr>uxLength = 10, q_items = []\<rparr>,
                    trace := [Log INFO ''Received interrupt for GPIO {}'' [ArgInt 3],
                              Log ERROR ''No callback registered for GPIO {}'' [ArgInt 3]]\<rparr>)"
  using
    task_callback_unmatched_or_no_callback
      [where s = "running_sys [pin3_with_callback] 10 [5]"
         and q = "\<lparr>uxLength = 10, q_items = [\<lparr>ed_gpio_num = 5\<rparr>]\<rparr>"
         and e = 5 and rest = "[]", THEN conjunct1]
    task_callback_unmatched_or_no_callback
      [where s = "running_sys [pin3_no_callback, pin3_with_callback] 10 [3]"
         and q = "\<lparr>uxLength = 10, q_items = [\<lparr>ed_gpio_num = 3\<rparr>]\<rparr>"
         and e = 3 and rest = "[]" and n = 0, THEN conjunct2, THEN conjunct1]
  by (simp add: running_sys_def pin3_with_callback_def pin3_no_callback_def)

subsection \<open>The states of the Dispatch Task\<close>

lemma task_callback_keeps_task:
  assumes "task_callback s = Inr (stop, s')"
  shows "task_m s' = task_m s"
  using assms
  by (auto simp: task_callback_def xQueueReceive_def logger_def emit_def Let_def
      split: QueueHandle_t.splits option.splits list.splits if_splits)

lemma task_callback_true_only_on_sentinel:
  assumes "task_callback s = Inr (True, s')"
  shows "\<exists>q rest. queue_m s = QUEUE_PTR \<and> rtos_queue s = Some q
                  \<and> q_items q = \<lparr>ed_gpio_num = - 1\<rparr> # rest"
  using assms
  by (auto simp: task_callback_def xQueueReceive_def logger_def emit_def Let_def
      split: QueueHandle_t.splits option.splits list.splits if_splits)

lemma task_callback_result:
  assumes "queue_m s = QUEUE_PTR" and "rtos_queue s = Some q"
    and "q_items q = \<lparr>ed_gpio_num = e\<rparr> # rest"
  shows "\<exists>s'. task_callback s = Inr (e = - 1, s')"
  using assms
  by (auto simp: task_callback_def xQueueReceive_head Let_def split: option.splits)

text \<open>
  C5. The Dispatch Task is Running once the constructor has started it. A round of the task
  asks for the stop only when it has received the sentinel pin id -1. A Running task that
  dequeues an event becomes Stopped if the event is the sentinel and stays Running for every
  other event, whatever the table holds for it. A Stopped task takes no further step.
\<close>

theorem dispatch_task_stops_only_on_sentinel:
  "task_m (Interrupt glitch_supported True config w) = Some Running
   \<and> (task_callback s = Inr (True, s') \<longrightarrow>
        (\<exists>q rest. queue_m s = QUEUE_PTR \<and> rtos_queue s = Some q
                  \<and> q_items q = \<lparr>ed_gpio_num = - 1\<rparr> # rest))
   \<and> (task_m s = Some Running \<and> queue_m s = QUEUE_PTR \<and> rtos_queue s = Some q
        \<and> q_items q = \<lparr>ed_gpio_num = e\<rparr> # rest \<longrightarrow>
        (\<exists>t. task_step s = Some (Inr t)
             \<and> task_m t = Some (if e = - 1 then Stopped else Running)))
   \<and> (task_m s = Some Stopped \<longrightarrow> task_step s = None)"
proof (intro conjI impI)
  show "task_m (Interrupt glitch_supported True config w) = Some Running"
    by (simp add: Interrupt_def xQueueCreate_def emit_def Let_def)
next
  assume "task_callback s = Inr (True, s')"
  then show "\<exists>q rest. queue_m s = QUEUE_PTR \<and> rtos_queue s = Some q
                  \<and> q_items q = \<lparr>ed_gpio_num = - 1\<rparr> # rest"
    by (rule task_callback_true_only_on_sentinel)
next
  assume a: "task_m s = Some Running \<and> queue_m s = QUEUE_PTR \<and> rtos_queue s = Some q
        \<and> q_items q = \<lparr>ed_gpio_num = e\<rparr> # rest"
  then obtain u where u: "task_callback s = Inr (e = - 1, u)"
    using task_callback_result by blast
  then have "task_m u = Some Running"
    using a task_callback_keeps_task by simp
  with a u show "\<exists>t. task_step s = Some (Inr t)
             \<and> task_m t = Some (if e = - 1 then Stopped else Running)"
    by (simp add: task_step_def)
next
  assume "task_m s = Some Stopped"
  then show "task_step s = None"
    by (simp add: task_step_def)
qed

theorem dispatch_task_stops_only_on_sentinel_witness:
  "(\<exists>t. task_step (running_sys [pin3_with_callback] 10 [- 1, 3]) = Some (Inr t)
        \<and> task_m t = Some Stopped)
   \<and> (\<exists>t. task_step (running_sys [pin3_no_callback] 10 [5]) = Some (Inr t)
        \<and> task_m t = Some Running)
   \<and> (\<exists>t. task_step (running_sys [pin3_no_callback] 10 [3]) = Some (Inr t)
        \<and> task_m t = Some Running)
   \<and> task_step ((running_sys [pin3_with_callback] 10 [3])\<lparr>task_m := Some Stopped\<rparr>) = None"
  using
    dispatch_task_stops_only_on_sentinel
      [where s = "running_sys [pin3_with_callback] 10 [- 1, 3]"
         and q = "\<lparr>uxLength = 10, q_items = [\<lparr>ed_gpio_num = - 1\<rparr>, \<lparr>ed_gpio_num = 3\<rparr>]\<rparr>"
         and e = "- 1" and rest = "[\<lparr>ed_gpio_num = 3\<rparr>]",
       THEN conjunct2, THEN conjunct2, THEN conjunct1]
    dispatch_task_stops_only_on_sentinel
      [where s = "running_sys [pin3_no_callback] 10 [5]"
         and q = "\<lparr>uxLength = 10, q_items = [\<lparr>ed_gpio_num = 5\<rparr>]\<rparr>"
         and e = 5 and rest = "[]",
       THEN conjunct2, THEN conjunct2, THEN conjunct1]
    dispatch_task_stops_only_on_sentinel
      [where s = "running_sys [pin3_no_callback] 10 [3]"
         and q = "\<lparr>uxLength = 10, q_items = [\<lparr>ed_gpio_num = 3\<rparr>]\<rparr>"
         and e = 3 and rest = "[]",
       THEN conjunct2, THEN conjunct2, THEN conjunct1]
    dispatch_task_stops_only_on_sentinel
      [where s = "(running_sys [pin3_with_callback] 10 [3])\<lparr>task_m := Some Stopped\<rparr>",
       THEN conjunct2, THEN conjunct2, THEN conjunct2]
  by (simp add: running_sys_def)

subsection \<open>ISR Bridge on a full queue\<close>

text \<open>
  C7. When the handler's queue is full, \<open>isr_handler\<close> returns with the whole state as it
  was: the queue keeps its contents, nothing is logged or called, and the handler reports
  nothing. It makes one attempt and does not wait.
\<close>

theorem isr_handler_full_queue_drops:
  assumes "event_queue args = QUEUE_PTR" and "rtos_queue s = Some q"
    and "uxLength q \<le> length (q_items q)"
  shows "isr_handler args s = Inr s"
  using assms by (simp add: isr_handler_def xQueueSendFromISR_def)

theorem isr_handler_full_queue_drops_witness:
  "isr_handler \<lparr>ha_gpio_num = 3, event_queue = QUEUE_PTR\<rparr>
     (running_sys [pin3_with_callback] 2 [3, 3])
   = Inr (running_sys [pin3_with_callback] 2 [3, 3])"
  using isr_handler_full_queue_drops
    [where args = "\<lparr>ha_gpio_num = 3, event_queue = QUEUE_PTR\<rparr>"
       and s = "running_sys [pin3_with_callback] 2 [3, 3]"
       and q = "\<lparr>uxLength = 2, q_items = [\<lparr>ed_gpio_num = 3\<rparr>, \<lparr>ed_gpio_num = 3\<rparr>]\<rparr>"]
  by (simp add: running_sys_def)

subsection \<open>The pin id in the delivered Event\<close>

text \<open>
  C10. Whenever a round of the task invokes a callback, the callback belongs to a table entry
  for the dequeued pin id, and the \<open>gpio_num\<close> of the Event it receives, read as an unsigned
  number, is that pin id modulo 256. For a pin id below 0 or above 255 the Event therefore
  carries a different number than was registered.
\<close>

theorem event_gpio_num_is_pin_mod_256:
  assumes "task_callback s = Inr (stop, s')"
    and "(cb, ev) \<in> set (callbacks_of (drop (length (trace s)) (trace s')))"
  shows "\<exists>entry\<in>set (interrupts_m s).
           callback entry = Some cb
           \<and> (\<exists>q rest. rtos_queue s = Some q
                        \<and> q_items q = \<lparr>ed_gpio_num = gpio_num entry\<rparr> # rest)
           \<and> uint (ev_gpio_num ev) = gpio_num entry mod 256
           \<and> (gpio_num entry < 0 \<or> 255 < gpio_num entry \<longrightarrow>
                uint (ev_gpio_num ev) \<noteq> gpio_num entry)"
proof -
  from assms obtain q item rest entry where
    q: "queue_m s = QUEUE_PTR" "rtos_queue s = Some q" "q_items q = item # rest"
    and f: "find (\<lambda>i. gpio_num i = ed_gpio_num item) (interrupts_m s) = Some entry"
    and c: "callback entry = Some cb"
    and v: "ev_gpio_num ev = word_of_int (ed_gpio_num item)"
    by (auto simp: task_callback_def xQueueReceive_def logger_def emit_def Let_def
        split: QueueHandle_t.splits option.splits list.splits if_splits)
  define e where "e = ed_gpio_num item"
  have i: "item = \<lparr>ed_gpio_num = e\<rparr>"
    by (simp add: e_def)
  from f have m: "entry \<in> set (interrupts_m s)" and g: "gpio_num entry = e"
    by (auto simp: find_Some_iff e_def)
  have u: "uint (ev_gpio_num ev) = e mod 256"
    by (simp add: v e_def uint_word_of_int)
  have "0 \<le> e mod 256" and "e mod 256 < 256"
    by simp_all
  then have "e < 0 \<or> 255 < e \<longrightarrow> e mod 256 \<noteq> e"
    by arith
  with m g c q i u show ?thesis
    by auto
qed

theorem event_gpio_num_is_pin_mod_256_witness:
  "task_callback (running_sys [pin300_with_callback] 10 [300]) =
     Inr (False, (running_sys [pin300_with_callback] 10 [300])
                   \<lparr>rtos_queue := Some \<lparr>uxLength = 10, q_items = []\<rparr>,
                    trace :=
                      [Log INFO ''Received interrupt for GPIO {}'' [ArgInt 300],
                       Log DEBUG ''Calling interrupt callback for GPIO {}'' [ArgInt 300],
                       Log DEBUG ''GPIO {} is {}'' [ArgInt 300, ArgStr ''active''],
                       Callback 7 \<lparr>ev_gpio_num = 44, active = True\<rparr>]\<rparr>)
   \<and> (\<exists>entry\<in>set [pin300_with_callback].
         callback entry = Some 7 \<and> gpio_num entry = 300
         \<and> uint (44 :: 8 word) = gpio_num entry mod 256
         \<and> uint (44 :: 8 word) \<noteq> gpio_num entry)"
proof -
  have r: "task_callback (running_sys [pin300_with_callback] 10 [300]) =
     Inr (False, (running_sys [pin300_with_callback] 10 [300])
                   \<lparr>rtos_queue := Some \<lparr>uxLength = 10, q_items = []\<rparr>,
                    trace :=
                      [Log INFO ''Received interrupt for GPIO {}'' [ArgInt 300],
                       Log DEBUG ''Calling interrupt callback for GPIO {}'' [ArgInt 300],
                       Log DEBUG ''GPIO {} is {}'' [ArgInt 300, ArgStr ''active''],
                       Callback 7 \<lparr>ev_gpio_num = 44, active = True\<rparr>]\<rparr>)"
    by (simp add: task_callback_def xQueueReceive_def running_sys_def pin300_with_callback_def
        pins_high_def logger_def emit_def is_active_level_def Let_def)
  have "(7, \<lparr>ev_gpio_num = 44, active = True\<rparr>)
          \<in> set (callbacks_of (drop (length (trace (running_sys [pin300_with_callback] 10 [300])))
               (trace ((running_sys [pin300_with_callback] 10 [300])
                   \<lparr>rtos_queue := Some \<lparr>uxLength = 10, q_items = []\<rparr>,
                    trace :=
                      [Log INFO ''Received interrupt for GPIO {}'' [ArgInt 300],
                       Log DEBUG ''Calling interrupt callback for GPIO {}'' [ArgInt 300],
                       Log DEBUG ''GPIO {} is {}'' [ArgInt 300, ArgStr ''active''],
                       Callback 7 \<lparr>ev_gpio_num = 44, active = True\<rparr>]\<rparr>))))"
    by (simp add: running_sys_def)
  from event_gpio_num_is_pin_mod_256 [OF r this] r show ?thesis
    by (simp add: running_sys_def pin300_with_callback_def)
qed

subsection \<open>Registration\<close>

text \<open>What \<open>configure_interrupt\<close> does for a spec with a callback and a pin id the shift is
  defined for, up to the glitch filter.\<close>

lemma configure_interrupt_no_filter:
  assumes "callback i = Some cb" and "0 \<le> gpio_num i" and "gpio_num i < 64"
    and "\<not> enable_pin_glitch_filter i"
  shows "configure_interrupt glitch_supported i s =
    s\<lparr>handler_args_m :=
         handler_args_m s @ [\<lparr>ha_gpio_num = gpio_num i, event_queue = queue_m s\<rparr>],
       trace := trace s @
         [Log INFO ''Configuring interrupt for GPIO {}'' [ArgInt (gpio_num i)],
          Log DEBUG ''Config: {}'' [ArgConfig i],
          GpioConfig
            \<lparr>pin_bit_mask = push_bit (nat (gpio_num i)) 1,
             mode = GPIO_MODE_INPUT,
             pull_up_en = (if pullup_enabled i
                           then GPIO_PULLUP_ENABLE else GPIO_PULLUP_DISABLE),
             pull_down_en = (if pulldown_enabled i
                             then GPIO_PULLDOWN_ENABLE else GPIO_PULLDOWN_DISABLE),
             intr_type = Type_to_gpio_int_type (interrupt_type i)\<rparr>,
          GpioIsrHandlerAdd (gpio_num i)
            \<lparr>ha_gpio_num = gpio_num i, event_queue = queue_m s\<rparr>]\<rparr>"
  using assms by (simp add: configure_interrupt_def logger_def emit_def Let_def)

lemma configure_interrupt_gpio_configs:
  assumes "callback i = Some cb" and "0 \<le> gpio_num i" and "gpio_num i < 64"
  shows "gpio_configs (trace (configure_interrupt glitch_supported i s)) =
    gpio_configs (trace s) @
      [\<lparr>pin_bit_mask = push_bit (nat (gpio_num i)) 1,
        mode = GPIO_MODE_INPUT,
        pull_up_en = (if pullup_enabled i then GPIO_PULLUP_ENABLE else GPIO_PULLUP_DISABLE),
        pull_down_en = (if pulldown_enabled i
                        then GPIO_PULLDOWN_ENABLE else GPIO_PULLDOWN_DISABLE),
        intr_type = Type_to_gpio_int_type (interrupt_type i)\<rparr>]"
  using assms
  by (simp add: configure_interrupt_def logger_def emit_def Let_def gpio_configs_append)

lemma configure_interrupt_rejected_gpio_configs:
  assumes "callback i = None"
  shows "gpio_configs (trace (configure_interrupt glitch_supported i s)) =
    gpio_configs (trace s)"
  using assms
  by (simp add: configure_interrupt_def logger_def emit_def Let_def gpio_configs_append)

lemma add_interrupt_gpio_configs:
  "gpio_configs (trace (add_interrupt glitch_supported i s)) =
   gpio_configs (trace (configure_interrupt glitch_supported i s))"
  by (simp add: add_interrupt_def configure_interrupt_def logger_def emit_def Let_def
      gpio_configs_append)

lemma last_gpio_config_snoc:
  assumes "gpio_configs tr = cs @ [c]" and "bit (pin_bit_mask c) pin"
  shows "last_gpio_config pin tr = Some c"
  using assms by (simp add: last_gpio_config_def)

lemma pin_bit_selected:
  assumes "0 \<le> g" and "g < 64"
  shows "bit (push_bit (nat g) 1 :: 64 word) (nat g)"
proof -
  from assms have "nat g < 64"
    by simp
  then show ?thesis
    by (simp add: bit_simps)
qed

text \<open>
  C2 (as amended). For every spec whose callback is absent, AddInterrupt appends the spec to
  the table, logs the rejection as an error and does nothing else: no driver call is made, no
  handler context and no glitch filter is created.
\<close>

theorem add_interrupt_without_callback_rejected:
  assumes "callback i = None"
  shows "add_interrupt glitch_supported i s =
    s\<lparr>interrupts_m := interrupts_m s @ [i],
       trace := trace s @
         [Log INFO ''Adding interrupt for GPIO {}'' [ArgInt (gpio_num i)],
          Log INFO ''Configuring interrupt for GPIO {}'' [ArgInt (gpio_num i)],
          Log DEBUG ''Config: {}'' [ArgConfig i],
          Log ERROR ''No callback provided for GPIO {}, not registering interrupt''
            [ArgInt (gpio_num i)]]\<rparr>"
  using assms
  by (simp add: add_interrupt_def configure_interrupt_def logger_def emit_def Let_def)

theorem add_interrupt_without_callback_rejected_witness:
  "add_interrupt False pin3_no_callback (running_sys [pin5_filtered] 10 []) =
     (running_sys [pin5_filtered] 10 [])
       \<lparr>interrupts_m := [pin5_filtered, pin3_no_callback],
        trace :=
          [Log INFO ''Adding interrupt for GPIO {}'' [ArgInt 3],
           Log INFO ''Configuring interrupt for GPIO {}'' [ArgInt 3],
           Log DEBUG ''Config: {}'' [ArgConfig pin3_no_callback],
           Log ERROR ''No callback provided for GPIO {}, not registering interrupt''
             [ArgInt 3]]\<rparr>"
  using add_interrupt_without_callback_rejected
    [where i = pin3_no_callback and s = "running_sys [pin5_filtered] 10 []"
       and glitch_supported = False]
  by (simp add: running_sys_def pin3_no_callback_def)

text \<open>
  C2 as stated fails: the spec without a callback is in the table after AddInterrupt.
\<close>

theorem add_interrupt_without_callback_counterexample:
  "callback pin3_no_callback = None
   \<and> interrupts_m (Interrupt False True empty_config world0) = []
   \<and> interrupts_m (add_interrupt False pin3_no_callback
                     (Interrupt False True empty_config world0)) = [pin3_no_callback]"
  by (simp add: add_interrupt_def configure_interrupt_def Interrupt_def xQueueCreate_def
      empty_config_def world0_def pin3_no_callback_def logger_def emit_def Let_def)

text \<open>
  C3, evaluated where the code departs from it. The constructor whose queue could not be
  allocated logs the failure and leaves the registry without queue and task. A later
  AddInterrupt for pin 3 with a callback configures the pin all the same and adds the
  interrupt handler with a handler context whose queue is the null pointer; a run of that
  handler faults on the queue.
\<close>

theorem add_interrupt_after_failed_queue_arms_handler:
  "queue_m inert_sys = NULL_QUEUE
   \<and> task_m inert_sys = None
   \<and> trace inert_sys = [Log ERROR ''Failed to create event queue'' []]
   \<and> trace (add_interrupt False pin3_with_callback inert_sys) =
       [Log ERROR ''Failed to create event queue'' [],
        Log INFO ''Adding interrupt for GPIO {}'' [ArgInt 3],
        Log INFO ''Configuring interrupt for GPIO {}'' [ArgInt 3],
        Log DEBUG ''Config: {}'' [ArgConfig pin3_with_callback],
        GpioConfig \<lparr>pin_bit_mask = 8, mode = GPIO_MODE_INPUT,
                    pull_up_en = GPIO_PULLUP_ENABLE, pull_down_en = GPIO_PULLDOWN_DISABLE,
                    intr_type = GPIO_INTR_POSEDGE\<rparr>,
        GpioIsrHandlerAdd 3 \<lparr>ha_gpio_num = 3, event_queue = NULL_QUEUE\<rparr>]
   \<and> handler_args_m (add_interrupt False pin3_with_callback inert_sys) =
       [\<lparr>ha_gpio_num = 3, event_queue = NULL_QUEUE\<rparr>]
   \<and> isr_handler \<lparr>ha_gpio_num = 3, event_queue = NULL_QUEUE\<rparr>
        (add_interrupt False pin3_with_callback inert_sys) = Inl InvalidQueueHandle"
  by (simp add: inert_sys_def Interrupt_def xQueueCreate_def empty_config_def world_isr_def
      world0_def add_interrupt_def configure_interrupt_def pin3_with_callback_def
      isr_handler_def xQueueSendFromISR_def logger_def emit_def Let_def)



text \<open>
  C9 (as amended). When AddInterrupt is called a second time with the same pin id and a spec
  that has a callback, the driver's most recent configuration of the pin is the later call's:
  input mode, the later call's trigger type and the later call's pull settings. The pin id is
  one the shift in \<open>configure_interrupt\<close> is defined for, 0 to 63.
\<close>

theorem add_interrupt_twice_configures_latest:
  assumes "gpio_num b = gpio_num a" and "callback b = Some cb"
    and "0 \<le> gpio_num b" and "gpio_num b < 64"
  shows "last_gpio_config (nat (gpio_num a))
           (trace (add_interrupt glitch_supported b (add_interrupt glitch_supported a s))) =
    Some \<lparr>pin_bit_mask = push_bit (nat (gpio_num a)) 1,
          mode = GPIO_MODE_INPUT,
          pull_up_en = (if pullup_enabled b then GPIO_PULLUP_ENABLE else GPIO_PULLUP_DISABLE),
          pull_down_en = (if pulldown_enabled b
                          then GPIO_PULLDOWN_ENABLE else GPIO_PULLDOWN_DISABLE),
          intr_type = Type_to_gpio_int_type (interrupt_type b)\<rparr>"
proof -
  let ?c = "\<lparr>pin_bit_mask = push_bit (nat (gpio_num b)) 1 :: 64 word,
          mode = GPIO_MODE_INPUT,
          pull_up_en = (if pullup_enabled b then GPIO_PULLUP_ENABLE else GPIO_PULLUP_DISABLE),
          pull_down_en = (if pulldown_enabled b
                          then GPIO_PULLDOWN_ENABLE else GPIO_PULLDOWN_DISABLE),
          intr_type = Type_to_gpio_int_type (interrupt_type b)\<rparr>"
  let ?s = "add_interrupt glitch_supported a s"
  have "gpio_configs (trace (add_interrupt glitch_supported b ?s)) =
        gpio_configs (trace ?s) @ [?c]"
    using assms(2-4)
    by (simp only: add_interrupt_gpio_configs [of _ b] configure_interrupt_gpio_configs)
  moreover have "bit (pin_bit_mask ?c) (nat (gpio_num b))"
    using pin_bit_selected [OF assms(3,4)] by simp
  ultimately have "last_gpio_config (nat (gpio_num b)) (trace (add_interrupt glitch_supported b ?s))
      = Some ?c"
    by (rule last_gpio_config_snoc)
  then show ?thesis
    by (simp add: assms(1))
qed

theorem add_interrupt_twice_configures_latest_witness:
  "last_gpio_config 3
     (trace (add_interrupt False pin3_other
              (add_interrupt False pin3_with_callback
                 (Interrupt False True empty_config world0)))) =
   Some \<lparr>pin_bit_mask = 8, mode = GPIO_MODE_INPUT, pull_up_en = GPIO_PULLUP_DISABLE,
         pull_down_en = GPIO_PULLDOWN_ENABLE, intr_type = GPIO_INTR_NEGEDGE\<rparr>"
  using add_interrupt_twice_configures_latest
    [where a = pin3_with_callback and b = pin3_other and cb = 8
       and glitch_supported = False and s = "Interrupt False True empty_config world0"]
  by (simp add: pin3_with_callback_def pin3_other_def)

text \<open>
  C9 as stated fails: a second call whose spec has no callback is rejected before any driver
  call. Here the second call for pin 3 asks for a falling edge trigger and a pull-down, and the
  driver's configuration of pin 3 stays the first call's, rising edge with a pull-up.
\<close>

theorem add_interrupt_twice_no_callback_counterexample:
  "gpio_num pin3_no_callback = gpio_num pin3_with_callback
   \<and> callback pin3_no_callback = None
   \<and> interrupt_type pin3_no_callback = FALLING_EDGE
   \<and> pulldown_enabled pin3_no_callback
   \<and> \<not> pullup_enabled pin3_no_callback
   \<and> last_gpio_config 3
       (trace (add_interrupt False pin3_no_callback
                (add_interrupt False pin3_with_callback
                   (Interrupt False True empty_config world0)))) =
     Some \<lparr>pin_bit_mask = 8, mode = GPIO_MODE_INPUT, pull_up_en = GPIO_PULLUP_ENABLE,
           pull_down_en = GPIO_PULLDOWN_DISABLE, intr_type = GPIO_INTR_POSEDGE\<rparr>"
proof -
  let ?s0 = "Interrupt False True empty_config world0"
  have "gpio_configs (trace ?s0) = []"
    by (simp add: Interrupt_def xQueueCreate_def empty_config_def world0_def emit_def Let_def)
  then have "gpio_configs (trace (add_interrupt False pin3_no_callback
                (add_interrupt False pin3_with_callback ?s0))) =
     [\<lparr>pin_bit_mask = 8, mode = GPIO_MODE_INPUT, pull_up_en = GPIO_PULLUP_ENABLE,
       pull_down_en = GPIO_PULLDOWN_DISABLE, intr_type = GPIO_INTR_POSEDGE\<rparr>]"
    by (simp add: add_interrupt_gpio_configs configure_interrupt_rejected_gpio_configs
        configure_interrupt_gpio_configs [where cb = 7]
        pin3_no_callback_def pin3_with_callback_def)
  then show ?thesis
    by (simp add: last_gpio_config_def pin3_no_callback_def pin3_with_callback_def)
qed

subsection \<open>Teardown\<close>

text \<open>The destructor calls \<^verbatim>\<open>gpio_isr_handler_remove\<close> once for every handler context,
  in the order of creation, touching nothing but the trace, and posts the sentinel to the queue
  afterwards; a full queue refuses the sentinel.\<close>

lemma fold_emit:
  "fold (\<lambda>x. emit (f x)) xs s = s\<lparr>trace := trace s @ map f xs\<rparr>"
  by (induction xs arbitrary: s) (simp_all add: emit_def)

lemma remove_isr_handlers_effect:
  "remove_isr_handlers s =
   s\<lparr>trace := trace s @ map (\<lambda>args. GpioIsrHandlerRemove (ha_gpio_num args)) (handler_args_m s)\<rparr>"
  by (simp add: remove_isr_handlers_def fold_emit)

lemma destroy_Interrupt_begin_effect:
  assumes "queue_m s = QUEUE_PTR" and "rtos_queue s = Some q"
  shows "destroy_Interrupt_begin s =
    Inr (s\<lparr>rtos_queue :=
              Some (if length (q_items q) < uxLength q
                    then q\<lparr>q_items := q_items q @ [\<lparr>ed_gpio_num = - 1\<rparr>]\<rparr> else q),
            trace := trace s @
              map (\<lambda>args. GpioIsrHandlerRemove (ha_gpio_num args)) (handler_args_m s)\<rparr>)"
  using assms
  by (simp add: destroy_Interrupt_begin_def remove_isr_handlers_effect xQueueSend_def)

end
